theory Spec2Isabelle
  imports Main
begin

section \<open>Reference chips of the Browse2 pages (SmallRef.tsx)\<close>

text \<open>
  The development embeds the label formatter \<^verbatim>\<open>objectRefDisplayName\<close> and the chip
  renderers \<^verbatim>\<open>SmallRefBox\<close>, \<^verbatim>\<open>SmallArtifactRef\<close>, \<^verbatim>\<open>SmallWeaveRef\<close> and
  \<^verbatim>\<open>SmallRef\<close> of
  \<^verbatim>\<open>weave-js/src/components/PagePanelComponents/Home/Browse2/SmallRef.tsx\<close>.

  A JavaScript string is read as the list of its code units, one \<^typ>\<open>char\<close> each, so
  that \<^verbatim>\<open>s.slice(0, 6)\<close> is \<^term>\<open>take 6 s\<close> and \<^verbatim>\<open>a + b\<close> is \<^term>\<open>a @ b\<close>.
  An optional field or argument is an \<^typ>\<open>'a option\<close>, with \<^term>\<open>None\<close> for both
  \<^verbatim>\<open>undefined\<close> and \<^verbatim>\<open>null\<close>. A \<^verbatim>\<open>throw\<close> is the \<^term>\<open>Inl\<close> branch of a sum.
\<close>

subsection \<open>Reference descriptors\<close>

text \<open>
  Modelled from the spec: the descriptor types \<^verbatim>\<open>WandbArtifactRef\<close>,
  \<^verbatim>\<open>WeaveObjectRef\<close>, \<^verbatim>\<open>ObjectRef\<close> and the guards \<^verbatim>\<open>isWandbArtifactRef\<close>,
  \<^verbatim>\<open>isWeaveObjectRef\<close> are declared in \<^verbatim>\<open>@wandb/weave/react\<close>, which is not among
  the sources. The spec describes a tagged union of an artifact reference (entity,
  project, artifact name, version, path, optional extra path) and a weave object
  reference (entity, project, kind tag, object id, version hash, optional extra path);
  the field names are the ones SmallRef.tsx reads. A value that matches neither guard
  is the third constructor.
\<close>

record ref_fields =
  entityName :: string
  projectName :: string
  artifactName :: string
  artifactVersion :: string
  artifactRefExtra :: "string option"

record WandbArtifactRef = ref_fields +
  artifactPath :: string

record WeaveObjectRef = ref_fields +
  weaveKind :: string

datatype ObjectRef =
  WandbArtifact WandbArtifactRef
| WeaveObject WeaveObjectRef
| UnrecognizedRef

fun isWandbArtifactRef :: "ObjectRef \<Rightarrow> bool" where
  "isWandbArtifactRef (WandbArtifact r) = True"
| "isWandbArtifactRef (WeaveObject r) = False"
| "isWandbArtifactRef UnrecognizedRef = False"

fun isWeaveObjectRef :: "ObjectRef \<Rightarrow> bool" where
  "isWeaveObjectRef (WandbArtifact r) = False"
| "isWeaveObjectRef (WeaveObject r) = True"
| "isWeaveObjectRef UnrecognizedRef = False"

subsection \<open>JavaScript built-ins used by the formatter\<close>

datatype error = Error string | TypeError string

text \<open>
  \<^verbatim>\<open>versionIndex?: number\<close>. The model covers the safe integers, those below
  \<open>2\<^sup>5\<^sup>3\<close> in magnitude: each of them is a number of its own, and a template
  literal prints it as its decimal digits, with a leading minus sign when it is
  negative. A larger, fractional, infinite or NaN number is outside the model, and what
  \<open>numberToString\<close> gives beyond the safe integers is not what the program prints.
\<close>

type_synonym number = int

definition digit :: "nat \<Rightarrow> char" where
  "digit d = ''0123456789'' ! d"

function digits :: "nat \<Rightarrow> string" where
  "digits n = (if n < 10 then [digit n] else digits (n div 10) @ [digit (n mod 10)])"
  by pat_completeness auto
termination
  by (relation "measure id") auto

declare digits.simps [simp del]

definition numberToString :: "number \<Rightarrow> string" where
  "numberToString n = (if n < 0 then CHR ''-'' # digits (nat (- n)) else digits (nat n))"

text \<open>
  \<^verbatim>\<open>if (s)\<close> on an optional string: \<^verbatim>\<open>undefined\<close>, \<^verbatim>\<open>null\<close> and the empty
  string are falsy.
\<close>

fun truthy :: "string option \<Rightarrow> bool" where
  "truthy None = False"
| "truthy (Some s) = (s \<noteq> [])"

text \<open>\<^verbatim>\<open>s.split('/')\<close>: the pieces between the slashes; the empty string gives one empty piece.\<close>

fun split_slash :: "string \<Rightarrow> string list" where
  "split_slash [] = [[]]"
| "split_slash (c # cs) =
     (if c = CHR ''/'' then [] # split_slash cs
      else (case split_slash cs of
              [] \<Rightarrow> [[c]]
            | p # ps \<Rightarrow> (c # p) # ps))"

text \<open>\<^verbatim>\<open>parts.join('/')\<close>.\<close>

fun join_slash :: "string list \<Rightarrow> string" where
  "join_slash [] = []"
| "join_slash [p] = p"
| "join_slash (p # q # ps) = p @ ''/'' @ join_slash (q # ps)"

subsection \<open>The label formatter\<close>

text \<open>
  The loop of lines 62-64,
  \<^verbatim>\<open>for (let i = 1; i < parts.length; i += 2) { newParts.push(parts[i]); }\<close>,
  with the index and the array being filled as arguments.
\<close>

function pushParts :: "string list \<Rightarrow> nat \<Rightarrow> string list \<Rightarrow> string list" where
  "pushParts parts i newParts =
     (if i < length parts then pushParts parts (i + 2) (newParts @ [parts ! i])
      else newParts)"
  by pat_completeness auto
termination
  by (relation "measure (\<lambda>(parts, i, newParts). length parts - i)") auto

declare pushParts.simps [simp del]

text \<open>The object \<^verbatim>\<open>{label}\<close> that the formatter returns.\<close>

record DisplayName =
  label :: string

text \<open>
  \<^verbatim>\<open>versionIndex != null ? `v${versionIndex}` : objRef.artifactVersion.slice(0, 6)\<close>,
  the initialiser of \<^verbatim>\<open>versionStr\<close> in both branches (lines 50-53 and 69-72).
\<close>

definition versionStr :: "number option \<Rightarrow> string \<Rightarrow> string" where
  "versionStr versionIndex artifactVersion' =
     (case versionIndex of
        Some n \<Rightarrow> ''v'' @ numberToString n
      | None \<Rightarrow> take 6 artifactVersion')"

fun objectRefDisplayName :: "ObjectRef \<Rightarrow> number option \<Rightarrow> error + DisplayName" where
  "objectRefDisplayName (WandbArtifact objRef) versionIndex =
     (let label0 = artifactName objRef @ '':'' @ versionStr versionIndex (artifactVersion objRef);
          label1 = (if artifactPath objRef \<noteq> ''obj'' then label0 @ ''/'' @ artifactPath objRef
                    else label0);
          label2 = (if truthy (artifactRefExtra objRef)
                    then (let parts = split_slash (the (artifactRefExtra objRef));
                              newParts = pushParts parts 1 []
                          in label1 @ ''#'' @ join_slash newParts)
                    else label1)
      in Inr \<lparr>label = label2\<rparr>)"
| "objectRefDisplayName (WeaveObject objRef) versionIndex =
     (let label0 = artifactName objRef @ '':'' @ versionStr versionIndex (artifactVersion objRef);
          label1 = (if truthy (artifactRefExtra objRef)
                    then label0 @ ''/'' @ the (artifactRefExtra objRef)
                    else label0)
      in Inr \<lparr>label = label1\<rparr>)"
| "objectRefDisplayName UnrecognizedRef versionIndex = Inl (Error ''Unknown ref type'')"

subsection \<open>Rendered markup\<close>

text \<open>
  The names of \<^verbatim>\<open>IconNames\<close> that the file uses (the module \<^verbatim>\<open>Icon\<close> is not among
  the sources; only the identity of a name matters here).
\<close>

datatype IconName =
  IconNames_Loading
| IconNames_Registries
| IconNames_OpenNewTab
| IconNames_CubeContainer
| IconNames_Table
| IconNames_Model
| IconNames_List
| IconNames_JobProgramCode

text \<open>
  The tree a component renders to, with the components of the file expanded. A prop is a
  pair of its name and its value; an entry of \<^verbatim>\<open>sx\<close> or \<^verbatim>\<open>style\<close> is named
  \<^verbatim>\<open>sx.height\<close>, \<^verbatim>\<open>style.width\<close>. The colour \<^verbatim>\<open>hexToRGB(MOON_300, 0.48)\<close> comes from
  \<^verbatim>\<open>globals.styles\<close>, which is not among the sources, and is kept as that expression.
\<close>

datatype element =
  Box "(string \<times> string) list" "element list"
| Icon IconName nat nat
| Text string
| Link "(string \<times> string) list" "element list"
| Div "element list"
| Fragment "element list"

definition SmallRefBox :: "IconName \<Rightarrow> string \<Rightarrow> bool \<Rightarrow> element" where
  "SmallRefBox iconName text' iconOnly =
     Box [(''display'', ''flex''), (''alignItems'', ''center'')]
       (Box [(''mr'', ''4px''), (''bgcolor'', ''hexToRGB(MOON_300, 0.48)''),
             (''sx.height'', ''22px''), (''sx.width'', ''22px''),
             (''sx.borderRadius'', ''16px''), (''sx.display'', ''flex''),
             (''sx.flex'', ''0 0 22px''), (''sx.justifyContent'', ''center''),
             (''sx.alignItems'', ''center'')]
          [Icon iconName 14 14]
        # (if \<not> iconOnly
           then [Box [(''sx.height'', ''22px''), (''sx.flex'', ''1''), (''sx.minWidth'', ''0''),
                      (''sx.overflow'', ''hidden''), (''sx.whiteSpace'', ''nowrap''),
                      (''sx.textOverflow'', ''ellipsis'')]
                   [Text text']]
           else []))"

subsection \<open>Injected lookups\<close>

text \<open>
  The hooks and helpers that SmallRef.tsx imports and calls are parameters of the model,
  gathered in one record: each is a function from the arguments the component passes to
  the value it gets back in the render being described. An object argument is passed
  field by field, in the order the component writes the fields.
\<close>

record QueryState =
  loading :: bool

record ArtInfo =
  artifactType :: "string option"
  orgName :: "string option"

record ArtifactWeaveReference = QueryState +
  artInfo :: "ArtInfo option"

record 'a Loadable = QueryState +
  result :: "'a option"

record VersionSchema =
  versionIndex :: number

text \<open>
  \<^verbatim>\<open>ObjectVersionKey\<close>: scheme, entity, project, weaveKind, objectId, versionHash, path,
  refExtra. \<^verbatim>\<open>OpVersionKey\<close>: entity, project, opId, versionHash.
\<close>

datatype ObjectVersionKey =
  ObjectVersionKey string string string string string string string "string option"

datatype OpVersionKey =
  OpVersionKey string string string string

datatype WFDBTableType =
  Op | OpVersion | Type | TypeVersion | Trace | Call | Object | ObjectVersion

text \<open>
  Modelled from the spec: \<^verbatim>\<open>Type\<close> of \<^verbatim>\<open>@wandb/weave/core\<close> is not among the sources.
  A type is a bare name (\<^verbatim>\<open>'unknown'\<close>) or an object with a \<^verbatim>\<open>type\<close> name and an
  optional \<^verbatim>\<open>_base_type\<close>, the two fields \<^verbatim>\<open>getRootType\<close> reads.
\<close>

datatype WeaveType =
  SimpleType string
| ComplexType string "WeaveType option"

text \<open>\<^verbatim>\<open>t?.type\<close>: undefined on a bare name.\<close>

fun type_field :: "WeaveType \<Rightarrow> string option" where
  "type_field (SimpleType s) = None"
| "type_field (ComplexType n b) = Some n"

fun getRootType :: "WeaveType \<Rightarrow> WeaveType" where
  "getRootType (SimpleType s) = SimpleType s"
| "getRootType (ComplexType n None) = ComplexType n None"
| "getRootType (ComplexType n (Some b)) =
     (if type_field b \<noteq> Some ''Object'' then getRootType b
      else ComplexType n (Some b))"

record Deps =
  useArtifactWeaveReference :: "string \<Rightarrow> string \<Rightarrow> string \<Rightarrow> ArtifactWeaveReference"
  fetchArtifactRefPageUrl ::
    "string \<Rightarrow> string \<Rightarrow> string \<Rightarrow> string \<Rightarrow> string option \<Rightarrow> string option \<Rightarrow> string option"
  useObjectVersion :: "ObjectVersionKey option \<Rightarrow> VersionSchema Loadable"
  useOpVersion :: "OpVersionKey option \<Rightarrow> VersionSchema Loadable"
  useRefsType :: "string list \<Rightarrow> (WeaveType list) Loadable"
  refUri :: "ObjectRef \<Rightarrow> string"
  refUIUrl :: "string \<Rightarrow> WeaveObjectRef \<Rightarrow> WFDBTableType option \<Rightarrow> string"
  getTypeName :: "WeaveType \<Rightarrow> string"

subsection \<open>The artifact chip\<close>

text \<open>The constant \<^verbatim>\<open>artifactUrl\<close> of lines 131-140.\<close>

definition artifactUrl :: "Deps \<Rightarrow> WandbArtifactRef \<Rightarrow> string option" where
  "artifactUrl d objRef =
     (case artInfo (useArtifactWeaveReference d (entityName objRef) (projectName objRef)
                      (artifactName objRef @ '':'' @ artifactVersion objRef)) of
        Some info \<Rightarrow>
          fetchArtifactRefPageUrl d (entityName objRef) (projectName objRef)
            (artifactName objRef) (artifactVersion objRef) (artifactType info) (orgName info)
      | None \<Rightarrow> None)"

text \<open>The element \<^verbatim>\<open>Content\<close> of lines 142-170.\<close>

definition Content :: "Deps \<Rightarrow> WandbArtifactRef \<Rightarrow> element" where
  "Content d objRef =
     Box [(''sx.width'', ''100%''), (''sx.height'', ''100%''), (''sx.minHeight'', ''38px''),
          (''sx.display'', ''flex''), (''sx.alignItems'', ''center''),
          (''sx.cursor'', if truthy (artifactUrl d objRef) then ''pointer'' else ''not-allowed''),
          (''title'',
             if truthy (artifactUrl d objRef) then artifactPath objRef
             else ''No link detected for this wandb artifact reference: '' @ artifactPath objRef)]
       [SmallRefBox IconNames_Registries
          (artifactName objRef @ '':'' @ artifactVersion objRef) False,
        if truthy (artifactUrl d objRef)
        then Box [(''sx.display'', ''flex''), (''sx.alignItems'', ''center'')]
               [Icon IconNames_OpenNewTab 14 14]
        else Fragment []]"

definition SmallArtifactRef :: "Deps \<Rightarrow> WandbArtifactRef \<Rightarrow> element" where
  "SmallArtifactRef d objRef =
     (if loading (useArtifactWeaveReference d (entityName objRef) (projectName objRef)
                    (artifactName objRef @ '':'' @ artifactVersion objRef))
      then SmallRefBox IconNames_Loading ''Loading...'' False
      else if truthy (artifactUrl d objRef)
      then Link [(''$variant'', ''secondary''), (''style.width'', ''100%''),
                 (''style.height'', ''100%''), (''as'', ''a''),
                 (''href'', the (artifactUrl d objRef))]
             [Content d objRef]
      else Content d objRef)"

subsection \<open>The weave object chip\<close>

text \<open>The keys of lines 196-217 and the version index of lines 219-222.\<close>

definition opVersionKey :: "WeaveObjectRef \<Rightarrow> OpVersionKey option" where
  "opVersionKey objRef =
     (if weaveKind objRef = ''op''
      then Some (OpVersionKey (entityName objRef) (projectName objRef) (artifactName objRef)
                   (artifactVersion objRef))
      else None)"

definition objVersionKey :: "WeaveObjectRef \<Rightarrow> ObjectVersionKey option" where
  "objVersionKey objRef =
     (if weaveKind objRef = ''op'' then None
      else Some (ObjectVersionKey ''weave'' (entityName objRef) (projectName objRef)
                   (weaveKind objRef) (artifactName objRef) (artifactVersion objRef) []
                   (artifactRefExtra objRef)))"

text \<open>
  \<^verbatim>\<open>objectVersion.result?.versionIndex ?? opVersion.result?.versionIndex\<close>.
\<close>

definition resolvedVersionIndex :: "Deps \<Rightarrow> WeaveObjectRef \<Rightarrow> number option" where
  "resolvedVersionIndex d objRef =
     (case result (useObjectVersion d (objVersionKey objRef)) of
        Some r \<Rightarrow> Some (versionIndex r)
      | None \<Rightarrow>
          (case result (useOpVersion d (opVersionKey objRef)) of
             Some r \<Rightarrow> Some (versionIndex r)
           | None \<Rightarrow> None))"

text \<open>
  The constant \<^verbatim>\<open>refType\<close> of lines 226-229. \<^verbatim>\<open>result[0]\<close> of an empty array is
  \<^verbatim>\<open>undefined\<close>, here \<^term>\<open>None\<close>.
\<close>

definition refType :: "Deps \<Rightarrow> WeaveObjectRef \<Rightarrow> WeaveType option" where
  "refType d objRef =
     (let refTypeQuery = useRefsType d [refUri d (WeaveObject objRef)]
      in if loading refTypeQuery \<or> result refTypeQuery = None then Some (SimpleType ''unknown'')
         else (case the (result refTypeQuery) of [] \<Rightarrow> None | t # ts \<Rightarrow> Some t))"

text \<open>
  The variable \<^verbatim>\<open>rootType\<close> of lines 230-234. \<^verbatim>\<open>getRootType(undefined)\<close> reads a
  property of \<^verbatim>\<open>undefined\<close> and throws a TypeError, before the override for operations
  is reached. The argument has the type \<^verbatim>\<open>WeaveObjectRef\<close>, whose \<^verbatim>\<open>scheme\<close> is
  \<^verbatim>\<open>'weave'\<close>, so that the test of line 231 is the test of the kind.
\<close>

definition rootType :: "Deps \<Rightarrow> WeaveObjectRef \<Rightarrow> error + WeaveType" where
  "rootType d objRef =
     (case refType d objRef of
        None \<Rightarrow> Inl (TypeError ''Cannot read properties of undefined'')
      | Some t \<Rightarrow>
          (let rootType0 = getRootType t
           in if weaveKind objRef = ''op'' then Inr (ComplexType ''OpDef'' None)
              else Inr rootType0))"

definition SmallWeaveRef ::
    "Deps \<Rightarrow> WeaveObjectRef \<Rightarrow> WFDBTableType option \<Rightarrow> bool \<Rightarrow> error + element" where
  "SmallWeaveRef d objRef wfTable iconOnly =
     (case rootType d objRef of
        Inl e \<Rightarrow> Inl e
      | Inr rootType' \<Rightarrow>
          (case objectRefDisplayName (WeaveObject objRef) (resolvedVersionIndex d objRef) of
             Inl e \<Rightarrow> Inl e
           | Inr displayName \<Rightarrow>
               (let rootTypeName = getTypeName d rootType';
                    icon = (if rootTypeName = ''Dataset'' then IconNames_Table
                            else if rootTypeName = ''Model'' then IconNames_Model
                            else if rootTypeName = ''List'' then IconNames_List
                            else if rootTypeName = ''OpDef'' then IconNames_JobProgramCode
                            else IconNames_CubeContainer);
                    Item = SmallRefBox icon (label displayName) iconOnly
                in if loading (useRefsType d [refUri d (WeaveObject objRef)]) then Inr Item
                   else Inr (Link [(''$variant'', ''secondary''), (''style.width'', ''100%''),
                                   (''to'', refUIUrl d rootTypeName objRef wfTable)]
                               [Item]))))"

subsection \<open>The top-level chip\<close>

definition SmallRef ::
    "Deps \<Rightarrow> ObjectRef \<Rightarrow> WFDBTableType option \<Rightarrow> bool \<Rightarrow> error + element" where
  "SmallRef d objRef wfTable iconOnly =
     (let isArtifactRef = isWandbArtifactRef objRef;
          isWeaveObjRef = isWeaveObjectRef objRef
      in if \<not> isArtifactRef \<and> \<not> isWeaveObjRef then Inr (Div [Text ''[Error: non wandb ref]''])
         else (case objRef of
                 WandbArtifact r \<Rightarrow> Inr (SmallArtifactRef d r)
               | WeaveObject r \<Rightarrow> SmallWeaveRef d r wfTable iconOnly
               | UnrecognizedRef \<Rightarrow> Inr (Div [Text ''[Error: non wandb ref]''])))"

subsection \<open>What a rendered tree shows\<close>

text \<open>The hyperlinks, the texts and the icons of a tree, and the values of a prop in it.\<close>

fun has_link :: "element \<Rightarrow> bool" where
  "has_link (Box ps cs) = list_ex has_link cs"
| "has_link (Icon n w h) = False"
| "has_link (Text s) = False"
| "has_link (Link ps cs) = True"
| "has_link (Div cs) = list_ex has_link cs"
| "has_link (Fragment cs) = list_ex has_link cs"

fun texts :: "element \<Rightarrow> string list" where
  "texts (Box ps cs) = concat (map texts cs)"
| "texts (Icon n w h) = []"
| "texts (Text s) = [s]"
| "texts (Link ps cs) = concat (map texts cs)"
| "texts (Div cs) = concat (map texts cs)"
| "texts (Fragment cs) = concat (map texts cs)"

fun icons :: "element \<Rightarrow> IconName list" where
  "icons (Box ps cs) = concat (map icons cs)"
| "icons (Icon n w h) = [n]"
| "icons (Text s) = []"
| "icons (Link ps cs) = concat (map icons cs)"
| "icons (Div cs) = concat (map icons cs)"
| "icons (Fragment cs) = concat (map icons cs)"

text \<open>The values that the elements of a tree give to the prop \<open>k\<close>, outermost first.\<close>

fun prop_values :: "string \<Rightarrow> element \<Rightarrow> string list" where
  "prop_values k (Box ps cs) =
     map snd (filter (\<lambda>p. fst p = k) ps) @ concat (map (prop_values k) cs)"
| "prop_values k (Icon n w h) = []"
| "prop_values k (Text s) = []"
| "prop_values k (Link ps cs) =
     map snd (filter (\<lambda>p. fst p = k) ps) @ concat (map (prop_values k) cs)"
| "prop_values k (Div cs) = concat (map (prop_values k) cs)"
| "prop_values k (Fragment cs) = concat (map (prop_values k) cs)"

subsection \<open>Readings of the claims' words\<close>

text \<open>
  "The odd-indexed segments": every second element, starting with the one at index 1.
\<close>

fun odd_indexed :: "'a list \<Rightarrow> 'a list" where
  "odd_indexed [] = []"
| "odd_indexed [x] = []"
| "odd_indexed (x # y # zs) = y # odd_indexed zs"

text \<open>
  "A fixed lookup on the type name": a table of four entries and a default.
\<close>

definition icon_table :: "(string \<times> IconName) list" where
  "icon_table =
     [(''Dataset'', IconNames_Table), (''Model'', IconNames_Model),
      (''List'', IconNames_List), (''OpDef'', IconNames_JobProgramCode)]"

definition icon_lookup :: "string \<Rightarrow> IconName" where
  "icon_lookup n = (case map_of icon_table n of Some i \<Rightarrow> i | None \<Rightarrow> IconNames_CubeContainer)"

text \<open>
  "\<open>v\<close> followed by that index": the index written as its decimal numeral. A decimal
  numeral is a non-empty string of digits with no leading zero, \<open>0\<close> itself apart; its
  value is read digit by digit; a negative integer has a minus sign before the numeral
  of its magnitude.
\<close>

definition digit_value :: "char \<Rightarrow> nat" where
  "digit_value c = of_char c - 48"

definition decimal_value :: "string \<Rightarrow> nat" where
  "decimal_value s = foldl (\<lambda>acc c. 10 * acc + digit_value c) 0 s"

definition is_decimal :: "string \<Rightarrow> bool" where
  "is_decimal s \<longleftrightarrow>
     s \<noteq> [] \<and> list_all (\<lambda>c. c \<in> set ''0123456789'') s \<and> (length s = 1 \<or> hd s \<noteq> CHR ''0'')"

definition is_numeral_of :: "string \<Rightarrow> int \<Rightarrow> bool" where
  "is_numeral_of s i \<longleftrightarrow>
     (if i < 0
      then s \<noteq> [] \<and> hd s = CHR ''-'' \<and> is_decimal (tl s) \<and> int (decimal_value (tl s)) = - i
      else is_decimal s \<and> int (decimal_value s) = i)"

subsection \<open>Sample inputs\<close>

definition sample_artifact :: WandbArtifactRef where
  "sample_artifact =
     \<lparr>entityName = ''team'', projectName = ''proj'', artifactName = ''model'',
      artifactVersion = ''abcdef1234'', artifactRefExtra = None, artifactPath = ''obj''\<rparr>"

definition sample_weave :: WeaveObjectRef where
  "sample_weave =
     \<lparr>entityName = ''team'', projectName = ''proj'', artifactName = ''model'',
      artifactVersion = ''abcdef1234'', artifactRefExtra = None, weaveKind = ''object''\<rparr>"

text \<open>
  Lookups for the samples: \<open>pending_deps\<close> has every lookup loading,
  \<open>resolved_deps\<close> has them finished with no artifact information, and
  \<open>linked_deps\<close> finished with a page URL. \<open>type_name\<close> stands for
  \<^verbatim>\<open>getTypeName\<close> in them.
\<close>

fun type_name :: "WeaveType \<Rightarrow> string" where
  "type_name (SimpleType s) = s"
| "type_name (ComplexType n b) = n"

definition pending_deps :: Deps where
  "pending_deps =
     \<lparr>useArtifactWeaveReference = (\<lambda>entity project name. \<lparr>loading = True, artInfo = None\<rparr>),
      fetchArtifactRefPageUrl = (\<lambda>entity project name version atype org. None),
      useObjectVersion = (\<lambda>key. \<lparr>loading = True, result = None\<rparr>),
      useOpVersion = (\<lambda>key. \<lparr>loading = True, result = None\<rparr>),
      useRefsType = (\<lambda>uris. \<lparr>loading = True, result = None\<rparr>),
      refUri = (\<lambda>r. ''weave:///team/proj/object/model:abcdef1234''),
      refUIUrl = (\<lambda>n r t. ''/team/proj/weave/objects/model''),
      getTypeName = type_name\<rparr>"

definition resolved_deps :: Deps where
  "resolved_deps =
     \<lparr>useArtifactWeaveReference = (\<lambda>entity project name. \<lparr>loading = False, artInfo = None\<rparr>),
      fetchArtifactRefPageUrl = (\<lambda>entity project name version atype org. None),
      useObjectVersion = (\<lambda>key. \<lparr>loading = False, result = Some \<lparr>versionIndex = 3\<rparr>\<rparr>),
      useOpVersion = (\<lambda>key. \<lparr>loading = False, result = None\<rparr>),
      useRefsType = (\<lambda>uris. \<lparr>loading = False,
         result = Some [ComplexType ''Dataset'' (Some (ComplexType ''Object'' None))]\<rparr>),
      refUri = (\<lambda>r. ''weave:///team/proj/object/model:abcdef1234''),
      refUIUrl = (\<lambda>n r t. ''/team/proj/weave/objects/model''),
      getTypeName = type_name\<rparr>"

definition linked_deps :: Deps where
  "linked_deps =
     resolved_deps
       \<lparr>useArtifactWeaveReference := (\<lambda>entity project name.
           \<lparr>loading = False, artInfo = Some \<lparr>artifactType = Some ''model'', orgName = None\<rparr>\<rparr>),
        fetchArtifactRefPageUrl := (\<lambda>entity project name version atype org.
           Some (''/'' @ entity @ ''/'' @ project @ ''/artifacts/model/'' @ name @ ''/'' @ version))\<rparr>"

section \<open>The label formatter\<close>

subsection \<open>The loop collects the odd-indexed parts\<close>

lemma odd_indexed_short: "length xs \<le> 1 \<Longrightarrow> odd_indexed xs = []"
  by (cases xs rule: odd_indexed.cases) auto

lemma length_odd_indexed: "length (odd_indexed xs) = length xs div 2"
  by (induction xs rule: odd_indexed.induct) auto

lemma nth_odd_indexed: "k < length xs div 2 \<Longrightarrow> odd_indexed xs ! k = xs ! (2 * k + 1)"
proof (induction xs arbitrary: k rule: odd_indexed.induct)
  case (3 x y zs)
  then show ?case by (cases k) auto
qed auto

text \<open>
  Started at an index \<open>i \<ge> 1\<close>, the loop appends the elements at \<open>i\<close>, \<open>i + 2\<close>, ...
  to what it was given.
\<close>

lemma pushParts_odd_indexed:
  "1 \<le> i \<Longrightarrow> pushParts parts i newParts = newParts @ odd_indexed (drop (i - 1) parts)"
proof (induction parts i newParts rule: pushParts.induct)
  case (1 parts i newParts)
  show ?case
  proof (cases "i < length parts")
    case True
    with "1.prems" have d: "drop (i - 1) parts = parts ! (i - 1) # parts ! i # drop (i + 1) parts"
      by (metis Cons_nth_drop_Suc Suc_eq_plus1 le_add_diff_inverse2 less_imp_diff_less)
    from True "1.IH" "1.prems" have "pushParts parts (i + 2) (newParts @ [parts ! i])
        = (newParts @ [parts ! i]) @ odd_indexed (drop (i + 1) parts)"
      by simp
    with True d show ?thesis
      by (subst pushParts.simps) simp
  next
    case False
    then have "length (drop (i - 1) parts) \<le> 1" by simp
    then have "odd_indexed (drop (i - 1) parts) = []" by (rule odd_indexed_short)
    with False show ?thesis
      by (subst pushParts.simps) simp
  qed
qed

lemma pushParts_from_1: "pushParts parts (Suc 0) [] = odd_indexed parts"
  using pushParts_odd_indexed [of 1 parts "[]"] by simp

subsection \<open>The label of each variant\<close>

lemma label_artifact:
  "objectRefDisplayName (WandbArtifact a) vi =
     Inr \<lparr>label = artifactName a @ '':'' @ versionStr vi (artifactVersion a)
            @ (if artifactPath a = ''obj'' then [] else ''/'' @ artifactPath a)
            @ (case artifactRefExtra a of
                 None \<Rightarrow> []
               | Some e \<Rightarrow> if e = [] then [] else ''#'' @ join_slash (odd_indexed (split_slash e)))\<rparr>"
  by (simp add: Let_def pushParts_from_1 split: option.split)

lemma label_weave:
  "objectRefDisplayName (WeaveObject w) vi =
     Inr \<lparr>label = artifactName w @ '':'' @ versionStr vi (artifactVersion w)
            @ (case artifactRefExtra w of
                 None \<Rightarrow> []
               | Some e \<Rightarrow> if e = [] then [] else ''/'' @ e)\<rparr>"
  by (simp add: Let_def split: option.split)

declare objectRefDisplayName.simps [simp del]

subsection \<open>The extra path\<close>

text \<open>
  Claim C1, as the spec has it: for a reference of either variant whose extra path is
  present and non-empty, the label gets \<open>#\<close> and the slash-joined odd-indexed segments
  of the extra path appended. It fails for the weave object variant: with the extra path
  \<open>a/b/c/d\<close> the label of the sample reference is \<open>model:abcdef/a/b/c/d\<close>, which is
  not the label without extra path, \<open>model:abcdef\<close>, followed by \<open>#b/d\<close>.
\<close>

theorem weave_extra_path_counterexample:
  "objectRefDisplayName (WeaveObject (sample_weave\<lparr>artifactRefExtra := Some ''a/b/c/d''\<rparr>)) None
     = Inr \<lparr>label = ''model:abcdef/a/b/c/d''\<rparr>
   \<and> objectRefDisplayName (WeaveObject sample_weave) None = Inr \<lparr>label = ''model:abcdef''\<rparr>
   \<and> split_slash ''a/b/c/d'' = [''a'', ''b'', ''c'', ''d'']
   \<and> ''model:abcdef/a/b/c/d'' \<noteq> ''model:abcdef'' @ ''#b/d''"
  by (simp add: sample_weave_def label_weave versionStr_def)

text \<open>
  Claim C1, amended: for an artifact reference whose extra path \<open>e\<close> is present and
  non-empty, the label is the label of the same reference without extra path, followed
  by \<open>#\<close> and the slash-joined odd-indexed segments of \<open>e\<close>; when the segments are
  \<open>[s0, s1, s2, s3]\<close> that is \<open>#s1/s3\<close>. For a weave object reference whose extra path
  \<open>e'\<close> is present and non-empty, the label is the label without extra path followed
  by \<open>/\<close> and the whole of \<open>e'\<close>.
\<close>

theorem extra_path_suffix:
  "(artifactRefExtra a = Some e \<and> e \<noteq> [] \<longrightarrow>
      (\<exists>l0. objectRefDisplayName (WandbArtifact (a\<lparr>artifactRefExtra := None\<rparr>)) vi = Inr \<lparr>label = l0\<rparr>
         \<and> objectRefDisplayName (WandbArtifact a) vi
             = Inr \<lparr>label = l0 @ ''#'' @ join_slash (odd_indexed (split_slash e))\<rparr>
         \<and> (\<forall>s0 s1 s2 s3. split_slash e = [s0, s1, s2, s3] \<longrightarrow>
               objectRefDisplayName (WandbArtifact a) vi
                 = Inr \<lparr>label = l0 @ ''#'' @ s1 @ ''/'' @ s3\<rparr>)))
   \<and> (artifactRefExtra w = Some e' \<and> e' \<noteq> [] \<longrightarrow>
      (\<exists>l0. objectRefDisplayName (WeaveObject (w\<lparr>artifactRefExtra := None\<rparr>)) vi = Inr \<lparr>label = l0\<rparr>
         \<and> objectRefDisplayName (WeaveObject w) vi = Inr \<lparr>label = l0 @ ''/'' @ e'\<rparr>))"
  by (simp add: label_artifact label_weave)

theorem extra_path_suffix_witness:
  "objectRefDisplayName (WandbArtifact (sample_artifact\<lparr>artifactRefExtra := Some ''a/b/c/d''\<rparr>)) None
     = Inr \<lparr>label = ''model:abcdef#b/d''\<rparr>
   \<and> objectRefDisplayName (WeaveObject (sample_weave\<lparr>artifactRefExtra := Some ''a/b/c/d''\<rparr>)) None
     = Inr \<lparr>label = ''model:abcdef/a/b/c/d''\<rparr>"
  using extra_path_suffix [where a = "sample_artifact\<lparr>artifactRefExtra := Some ''a/b/c/d''\<rparr>"
      and e = "''a/b/c/d''" and vi = None
      and w = "sample_weave\<lparr>artifactRefExtra := Some ''a/b/c/d''\<rparr>" and e' = "''a/b/c/d''"]
  by (simp add: sample_artifact_def sample_weave_def label_artifact label_weave versionStr_def)

subsection \<open>The printed index\<close>
















lemma numberToString_samples:
  "numberToString 0 = ''0''" "numberToString 12 = ''12''" "numberToString (- 7) = ''-7''"
  "numberToString 9007199254740991 = ''9007199254740991''"
  by (simp_all add: numberToString_def digits.simps digit_def)

lemma is_numeral_of_samples:
  "is_numeral_of ''12'' 12" "\<not> is_numeral_of ''012'' 12" "\<not> is_numeral_of ''0'' 12"
  "is_numeral_of ''-7'' (- 7)"
  by (simp_all add: is_numeral_of_def is_decimal_def decimal_value_def digit_value_def)

subsection \<open>The version part\<close>



text \<open>
  Claim C3: with no version index supplied, the label of a reference of either
  recognised variant is the name, a colon and the first 6 characters of the version
  string \<open>v\<close> (all of it when it is shorter), followed by a remainder that does not
  depend on \<open>v\<close>. The artifact \<open>model\<close> with version \<open>abcdef1234\<close>, path \<open>obj\<close> and
  no extra path has the label \<open>model:abcdef\<close>.
\<close>

theorem hash_prefix_label:
  "(\<exists>rest. \<forall>v. objectRefDisplayName (WandbArtifact (a\<lparr>artifactVersion := v\<rparr>)) None
        = Inr \<lparr>label = artifactName a @ '':'' @ take 6 v @ rest\<rparr>)
   \<and> (\<exists>rest. \<forall>v. objectRefDisplayName (WeaveObject (w\<lparr>artifactVersion := v\<rparr>)) None
        = Inr \<lparr>label = artifactName w @ '':'' @ take 6 v @ rest\<rparr>)
   \<and> objectRefDisplayName
        (WandbArtifact \<lparr>entityName = en, projectName = pn, artifactName = ''model'',
           artifactVersion = ''abcdef1234'', artifactRefExtra = None, artifactPath = ''obj''\<rparr>) None
      = Inr \<lparr>label = ''model:abcdef''\<rparr>"
proof (intro conjI)
  let ?rest = "(if artifactPath a = ''obj'' then [] else ''/'' @ artifactPath a)
      @ (case artifactRefExtra a of
           None \<Rightarrow> []
         | Some e \<Rightarrow> if e = [] then [] else ''#'' @ join_slash (odd_indexed (split_slash e)))"
  show "\<exists>rest. \<forall>v. objectRefDisplayName (WandbArtifact (a\<lparr>artifactVersion := v\<rparr>)) None
        = Inr \<lparr>label = artifactName a @ '':'' @ take 6 v @ rest\<rparr>"
    by (rule exI [of _ ?rest]) (simp add: label_artifact versionStr_def)
  show "\<exists>rest. \<forall>v. objectRefDisplayName (WeaveObject (w\<lparr>artifactVersion := v\<rparr>)) None
        = Inr \<lparr>label = artifactName w @ '':'' @ take 6 v @ rest\<rparr>"
    by (intro exI allI) (simp add: label_weave versionStr_def)
  show "objectRefDisplayName
        (WandbArtifact \<lparr>entityName = en, projectName = pn, artifactName = ''model'',
           artifactVersion = ''abcdef1234'', artifactRefExtra = None, artifactPath = ''obj''\<rparr>) None
      = Inr \<lparr>label = ''model:abcdef''\<rparr>"
    by (simp add: label_artifact versionStr_def)
qed

theorem hash_prefix_label_witness:
  "objectRefDisplayName (WandbArtifact sample_artifact) None = Inr \<lparr>label = ''model:abcdef''\<rparr>"
  using hash_prefix_label [of sample_artifact sample_weave "''team''" "''proj''"]
  by (simp add: sample_artifact_def)

subsection \<open>The artifact path\<close>

text \<open>
  Claim C4: in the label of an artifact reference, what follows the name, the colon and
  the version part is \<open>/\<close> and the artifact path when the path is not \<open>obj\<close>, and
  nothing when it is \<open>obj\<close>; the remainder of the label is the same for every path.
\<close>

theorem artifact_path_part:
  "\<exists>rest. \<forall>p. objectRefDisplayName (WandbArtifact (a\<lparr>artifactPath := p\<rparr>)) vi
      = Inr \<lparr>label = artifactName a @ '':'' @ versionStr vi (artifactVersion a)
                      @ (if p = ''obj'' then [] else ''/'' @ p) @ rest\<rparr>"
  by (intro exI allI) (simp add: label_artifact)

theorem artifact_path_part_witness:
  "objectRefDisplayName (WandbArtifact (sample_artifact\<lparr>artifactPath := ''obj''\<rparr>)) None
     = Inr \<lparr>label = ''model:abcdef''\<rparr>
   \<and> objectRefDisplayName (WandbArtifact (sample_artifact\<lparr>artifactPath := ''data/rows''\<rparr>)) None
     = Inr \<lparr>label = ''model:abcdef/data/rows''\<rparr>"
  using artifact_path_part [of sample_artifact None]
  by (simp add: sample_artifact_def label_artifact versionStr_def)

subsection \<open>Unrecognised references\<close>

text \<open>
  Claim C5: for a reference that matches neither guard, the formatter throws the error
  \<open>Unknown ref type\<close>; it returns no label.
\<close>

theorem unknown_ref_throws:
  assumes "\<not> isWandbArtifactRef r" and "\<not> isWeaveObjectRef r"
  shows "objectRefDisplayName r vi = Inl (Error ''Unknown ref type'')"
  using assms by (cases r) (simp_all add: objectRefDisplayName.simps)

theorem unknown_ref_throws_witness:
  "\<not> isWandbArtifactRef UnrecognizedRef \<and> \<not> isWeaveObjectRef UnrecognizedRef
   \<and> objectRefDisplayName UnrecognizedRef (Some 1) = Inl (Error ''Unknown ref type'')"
  using unknown_ref_throws [of UnrecognizedRef "Some 1"] by simp

section \<open>The chips\<close>

subsection \<open>What a chip's box shows\<close>

lemma has_link_SmallRefBox [simp]: "\<not> has_link (SmallRefBox i t io)"
  by (simp add: SmallRefBox_def)

lemma texts_SmallRefBox [simp]: "texts (SmallRefBox i t io) = (if io then [] else [t])"
  by (simp add: SmallRefBox_def)

lemma icons_SmallRefBox [simp]: "icons (SmallRefBox i t io) = [i]"
  by (simp add: SmallRefBox_def)

lemma cursor_SmallRefBox [simp]: "prop_values ''sx.cursor'' (SmallRefBox i t io) = []"
  by (simp add: SmallRefBox_def)

lemma title_SmallRefBox [simp]: "prop_values ''title'' (SmallRefBox i t io) = []"
  by (simp add: SmallRefBox_def)

lemma icon_lookup_chain:
  "icon_lookup n =
     (if n = ''Dataset'' then IconNames_Table
      else if n = ''Model'' then IconNames_Model
      else if n = ''List'' then IconNames_List
      else if n = ''OpDef'' then IconNames_JobProgramCode
      else IconNames_CubeContainer)"
  by (simp add: icon_lookup_def icon_table_def)

lemma SmallWeaveRef_Inr:
  assumes "rootType d w = Inr t"
  shows "SmallWeaveRef d w wfTable iconOnly =
     Inr (let Item = SmallRefBox (icon_lookup (getTypeName d t))
                 (artifactName w @ '':'' @ versionStr (resolvedVersionIndex d w) (artifactVersion w)
                   @ (case artifactRefExtra w of
                        None \<Rightarrow> []
                      | Some e \<Rightarrow> if e = [] then [] else ''/'' @ e)) iconOnly
          in if loading (useRefsType d [refUri d (WeaveObject w)]) then Item
             else Link [(''$variant'', ''secondary''), (''style.width'', ''100%''),
                        (''to'', refUIUrl d (getTypeName d t) w wfTable)] [Item])"
  using assms by (simp add: SmallWeaveRef_def label_weave icon_lookup_chain Let_def)

lemma rootType_loading:
  assumes "loading (useRefsType d [refUri d (WeaveObject w)])"
  shows "rootType d w = Inr (if weaveKind w = ''op'' then ComplexType ''OpDef'' None else SimpleType ''unknown'')"
  using assms by (simp add: rootType_def refType_def Let_def)

text \<open>
  The hyperlink of the weave object chip is there exactly when the type lookup is not
  loading; the loading flags of the two version lookups are not read.
\<close>

lemma weave_chip_link_iff:
  assumes "rootType d w = Inr t"
  shows "\<exists>e. SmallWeaveRef d w wfTable iconOnly = Inr e
           \<and> (has_link e \<longleftrightarrow> \<not> loading (useRefsType d [refUri d (WeaveObject w)]))"
  by (simp add: SmallWeaveRef_Inr [OF assms] Let_def)

subsection \<open>While the lookups are loading\<close>

text \<open>
  Claim C6, as the spec has it: while the lookups of a chip are loading, what either
  chip renders is a loading placeholder with no hyperlink. The only loading placeholder
  of the file is the box with the loading icon and the text \<open>Loading...\<close> that the
  artifact chip returns. The weave object chip does not render it: with all three of
  its lookups loading, the sample reference renders as the box with the generic icon
  and its label \<open>model:abcdef\<close>.
\<close>

theorem weave_chip_loading_counterexample:
  "loading (useObjectVersion pending_deps (objVersionKey sample_weave))
   \<and> loading (useOpVersion pending_deps (opVersionKey sample_weave))
   \<and> loading (useRefsType pending_deps [refUri pending_deps (WeaveObject sample_weave)])
   \<and> SmallWeaveRef pending_deps sample_weave None False
       = Inr (SmallRefBox IconNames_CubeContainer ''model:abcdef'' False)
   \<and> SmallRefBox IconNames_CubeContainer ''model:abcdef'' False
       \<noteq> SmallRefBox IconNames_Loading ''Loading...'' False
   \<and> icons (SmallRefBox IconNames_CubeContainer ''model:abcdef'' False) = [IconNames_CubeContainer]
   \<and> texts (SmallRefBox IconNames_CubeContainer ''model:abcdef'' False) = [''model:abcdef'']"
proof -
  have l: "loading (useRefsType pending_deps [refUri pending_deps (WeaveObject sample_weave)])"
    by (simp add: pending_deps_def)
  have r: "rootType pending_deps sample_weave = Inr (SimpleType ''unknown'')"
    using rootType_loading [OF l] by (simp add: sample_weave_def)
  have v: "resolvedVersionIndex pending_deps sample_weave = None"
    by (simp add: resolvedVersionIndex_def pending_deps_def)
  have n: "getTypeName pending_deps (SimpleType ''unknown'') = ''unknown''"
    by (simp add: pending_deps_def)
  have "SmallWeaveRef pending_deps sample_weave None False
       = Inr (SmallRefBox IconNames_CubeContainer ''model:abcdef'' False)"
    unfolding SmallWeaveRef_Inr [OF r] v n
    using l by (simp add: icon_lookup_chain versionStr_def sample_weave_def)
  moreover have "SmallRefBox IconNames_CubeContainer ''model:abcdef'' False
       \<noteq> SmallRefBox IconNames_Loading ''Loading...'' False"
    by (simp add: SmallRefBox_def)
  ultimately show ?thesis
    using l by (simp add: pending_deps_def)
qed

text \<open>
  Claim C6, amended: while the artifact lookup is loading, the artifact chip is the
  loading placeholder (loading icon, text \<open>Loading...\<close>), with no hyperlink and no
  cursor. While the type lookup is loading, the weave object chip is the box with its
  icon and the label of the formatter, with no hyperlink around it and no cursor.
\<close>

theorem loading_chips:
  "(loading (useArtifactWeaveReference d (entityName a) (projectName a)
              (artifactName a @ '':'' @ artifactVersion a))
      \<longrightarrow> SmallArtifactRef d a = SmallRefBox IconNames_Loading ''Loading...'' False
          \<and> \<not> has_link (SmallArtifactRef d a)
          \<and> prop_values ''sx.cursor'' (SmallArtifactRef d a) = [])
   \<and> (loading (useRefsType d [refUri d (WeaveObject w)])
      \<longrightarrow> (\<exists>icon l. objectRefDisplayName (WeaveObject w) (resolvedVersionIndex d w) = Inr \<lparr>label = l\<rparr>
             \<and> SmallWeaveRef d w wfTable iconOnly = Inr (SmallRefBox icon l iconOnly)
             \<and> \<not> has_link (SmallRefBox icon l iconOnly)
             \<and> prop_values ''sx.cursor'' (SmallRefBox icon l iconOnly) = []))"
proof (intro conjI impI)
  assume l: "loading (useArtifactWeaveReference d (entityName a) (projectName a)
              (artifactName a @ '':'' @ artifactVersion a))"
  then show e: "SmallArtifactRef d a = SmallRefBox IconNames_Loading ''Loading...'' False"
    by (simp add: SmallArtifactRef_def)
  show "\<not> has_link (SmallArtifactRef d a)" by (simp add: e)
  show "prop_values ''sx.cursor'' (SmallArtifactRef d a) = []" by (simp add: e)
next
  assume l: "loading (useRefsType d [refUri d (WeaveObject w)])"
  note r = rootType_loading [OF l]
  show "\<exists>icon l. objectRefDisplayName (WeaveObject w) (resolvedVersionIndex d w) = Inr \<lparr>label = l\<rparr>
             \<and> SmallWeaveRef d w wfTable iconOnly = Inr (SmallRefBox icon l iconOnly)
             \<and> \<not> has_link (SmallRefBox icon l iconOnly)
             \<and> prop_values ''sx.cursor'' (SmallRefBox icon l iconOnly) = []"
    unfolding SmallWeaveRef_Inr [OF r] label_weave
    using l by (intro exI [of _ "icon_lookup (getTypeName d
        (if weaveKind w = ''op'' then ComplexType ''OpDef'' None else SimpleType ''unknown''))"])
      simp
qed

theorem loading_chips_witness:
  "loading (useArtifactWeaveReference pending_deps ''team'' ''proj'' ''model:abcdef1234'')
   \<and> SmallArtifactRef pending_deps sample_artifact = SmallRefBox IconNames_Loading ''Loading...'' False
   \<and> loading (useRefsType pending_deps [refUri pending_deps (WeaveObject sample_weave)])
   \<and> \<not> has_link (SmallArtifactRef pending_deps sample_artifact)"
  using loading_chips [of pending_deps sample_artifact sample_weave None False]
  by (simp add: pending_deps_def sample_artifact_def)

subsection \<open>An artifact without page URL\<close>

text \<open>
  Claim C7: when the artifact lookup has finished and the page URL is missing or empty
  (the constant \<^verbatim>\<open>artifactUrl\<close>, computed once the loading placeholder is out of
  the way, is falsy), the artifact chip is the content box itself, with no hyperlink
  around it, the cursor \<open>not-allowed\<close> and the title
  \<open>No link detected for this wandb artifact reference: \<close> followed by the path.
\<close>

theorem unresolved_url_chip:
  assumes "\<not> loading (useArtifactWeaveReference d (entityName a) (projectName a)
                        (artifactName a @ '':'' @ artifactVersion a))"
    and "\<not> truthy (artifactUrl d a)"
  shows "SmallArtifactRef d a =
           Box [(''sx.width'', ''100%''), (''sx.height'', ''100%''), (''sx.minHeight'', ''38px''),
                (''sx.display'', ''flex''), (''sx.alignItems'', ''center''),
                (''sx.cursor'', ''not-allowed''),
                (''title'', ''No link detected for this wandb artifact reference: '' @ artifactPath a)]
             [SmallRefBox IconNames_Registries (artifactName a @ '':'' @ artifactVersion a) False,
              Fragment []]
         \<and> \<not> has_link (SmallArtifactRef d a)
         \<and> prop_values ''sx.cursor'' (SmallArtifactRef d a) = [''not-allowed'']
         \<and> prop_values ''title'' (SmallArtifactRef d a)
             = [''No link detected for this wandb artifact reference: '' @ artifactPath a]"
  using assms by (simp add: SmallArtifactRef_def Content_def)

theorem unresolved_url_chip_witness:
  "\<not> loading (useArtifactWeaveReference resolved_deps ''team'' ''proj'' ''model:abcdef1234'')
   \<and> \<not> truthy (artifactUrl resolved_deps sample_artifact)
   \<and> \<not> has_link (SmallArtifactRef resolved_deps sample_artifact)
   \<and> prop_values ''sx.cursor'' (SmallArtifactRef resolved_deps sample_artifact) = [''not-allowed'']
   \<and> prop_values ''title'' (SmallArtifactRef resolved_deps sample_artifact)
       = [''No link detected for this wandb artifact reference: obj'']"
proof -
  have l: "\<not> loading (useArtifactWeaveReference resolved_deps (entityName sample_artifact)
             (projectName sample_artifact)
             (artifactName sample_artifact @ '':'' @ artifactVersion sample_artifact))"
    by (simp add: resolved_deps_def)
  have u: "\<not> truthy (artifactUrl resolved_deps sample_artifact)"
    by (simp add: artifactUrl_def resolved_deps_def)
  show ?thesis
    using unresolved_url_chip [OF l u] l u by (simp add: sample_artifact_def)
qed

subsection \<open>An unrecognised reference\<close>

text \<open>
  Claim C8: for a reference that matches neither guard, the top-level chip returns the
  element \<^verbatim>\<open><div>[Error: non wandb ref]</div>\<close>; it does not throw.
\<close>

theorem unknown_ref_chip:
  assumes "\<not> isWandbArtifactRef r" and "\<not> isWeaveObjectRef r"
  shows "SmallRef d r wfTable iconOnly = Inr (Div [Text ''[Error: non wandb ref]''])"
  using assms by (simp add: SmallRef_def)

theorem unknown_ref_chip_witness:
  "\<not> isWandbArtifactRef UnrecognizedRef \<and> \<not> isWeaveObjectRef UnrecognizedRef
   \<and> SmallRef resolved_deps UnrecognizedRef (Some Object) True
       = Inr (Div [Text ''[Error: non wandb ref]''])"
  using unknown_ref_chip [of UnrecognizedRef resolved_deps "Some Object" True] by simp

subsection \<open>The icon\<close>

text \<open>
  Claim C9: whenever the root type \<open>t\<close> of the weave object chip is computed, the chip
  is rendered and shows one icon, the one the table gives for the name of \<open>t\<close>:
  \<open>Dataset\<close> the table icon, \<open>Model\<close> the model icon, \<open>List\<close> the list icon,
  \<open>OpDef\<close> the program-code icon, and every other name the cube container.
\<close>

theorem weave_chip_icon:
  assumes "rootType d w = Inr t"
  shows "(\<exists>e. SmallWeaveRef d w wfTable iconOnly = Inr e \<and> icons e = [icon_lookup (getTypeName d t)])
         \<and> icon_lookup ''Dataset'' = IconNames_Table
         \<and> icon_lookup ''Model'' = IconNames_Model
         \<and> icon_lookup ''List'' = IconNames_List
         \<and> icon_lookup ''OpDef'' = IconNames_JobProgramCode
         \<and> (\<forall>n. n \<notin> {''Dataset'', ''Model'', ''List'', ''OpDef''}
               \<longrightarrow> icon_lookup n = IconNames_CubeContainer)"
proof (intro conjI)
  show "\<exists>e. SmallWeaveRef d w wfTable iconOnly = Inr e \<and> icons e = [icon_lookup (getTypeName d t)]"
    by (simp add: SmallWeaveRef_Inr [OF assms] Let_def)
qed (simp_all add: icon_lookup_chain)

theorem weave_chip_icon_witness:
  "rootType resolved_deps sample_weave = Inr (ComplexType ''Dataset'' (Some (ComplexType ''Object'' None)))
   \<and> (\<exists>e. SmallWeaveRef resolved_deps sample_weave None False = Inr e \<and> icons e = [IconNames_Table])"
proof -
  have r: "rootType resolved_deps sample_weave
      = Inr (ComplexType ''Dataset'' (Some (ComplexType ''Object'' None)))"
    by (simp add: rootType_def refType_def resolved_deps_def sample_weave_def)
  have n: "getTypeName resolved_deps (ComplexType ''Dataset'' (Some (ComplexType ''Object'' None)))
      = ''Dataset''"
    by (simp add: resolved_deps_def)
  show ?thesis
    using weave_chip_icon [OF r, of None False] r by (simp add: n icon_lookup_chain)
qed

subsection \<open>The text of the artifact chip\<close>

text \<open>
  Claim C10: when the artifact lookup is not loading, the one text that the artifact
  chip shows is the artifact name, a colon and the whole version string; no version
  index enters it.
\<close>

theorem artifact_chip_text:
  assumes "\<not> loading (useArtifactWeaveReference d (entityName a) (projectName a)
                        (artifactName a @ '':'' @ artifactVersion a))"
  shows "texts (SmallArtifactRef d a) = [artifactName a @ '':'' @ artifactVersion a]"
  using assms by (simp add: SmallArtifactRef_def Content_def)

theorem artifact_chip_text_witness:
  "\<not> loading (useArtifactWeaveReference linked_deps ''team'' ''proj'' ''model:abcdef1234'')
   \<and> has_link (SmallArtifactRef linked_deps sample_artifact)
   \<and> texts (SmallArtifactRef linked_deps sample_artifact) = [''model:abcdef1234'']"
proof -
  have l: "\<not> loading (useArtifactWeaveReference linked_deps (entityName sample_artifact)
             (projectName sample_artifact)
             (artifactName sample_artifact @ '':'' @ artifactVersion sample_artifact))"
    by (simp add: linked_deps_def resolved_deps_def)
  have h: "has_link (SmallArtifactRef linked_deps sample_artifact)"
    by (simp add: SmallArtifactRef_def artifactUrl_def linked_deps_def resolved_deps_def)
  show ?thesis
    using artifact_chip_text [OF l] l h by (simp add: sample_artifact_def)
qed

end
